theory Spec2Isabelle
  imports Complex_Main
begin

section \<open>ImageNet ResNet training with Horovod: the configuration script\<close>

text \<open>
  A shallow embedding of \<^verbatim>\<open>ResNet-Horovod/imagenet-resnet-horovod.py\<close>.

  Conventions of the model:
  \<^item> Learning rates, the loss and the loss scale are Python floats, idealised as rationals
    (\<open>rat\<close>): \<^verbatim>\<open>0.1\<close> is \<open>1/10\<close> and their arithmetic is exact. The two comparisons the
    script makes on floats, \<^verbatim>\<open>BASE_LR > 0.1\<close> and \<^verbatim>\<open>self._loss_scale != 1.0\<close>, have the
    same outcome on IEEE doubles as on rationals, since \<^verbatim>\<open>BASE_LR\<close> is \<^verbatim>\<open>0.1\<close> times an
    integer and the loss scale is \<^verbatim>\<open>1.0\<close> divided by a positive integer.
  \<^item> Converting a Python integer to a float raises \<^verbatim>\<open>OverflowError\<close> when the integer is
    beyond the range of a double; this is modelled (\<open>float_overflows\<close>).
  \<^item> The error counters pass through a \<^verbatim>\<open>float32\<close> tensor; its rounding is modelled
    (\<open>float32\<close>).
  \<^item> \<^verbatim>\<open>/\<close> between integers is true division (Python 3); \<^verbatim>\<open>//\<close> is floor division,
    which is \<open>div\<close> on \<open>int\<close>.
  \<^item> Exceptions are values of the type \<open>error\<close>.
  \<^item> Objects handed to the external frameworks (tensorpack, Horovod) are plain data:
    the constructor name and its arguments. The calls into the frameworks that do work
    (reading the dataset, loading a model, evaluating, initialising Horovod, setting the
    log directory, training) may raise; what they do is a parameter.
\<close>

subsection \<open>Errors, command line, Horovod context\<close>

datatype error =
    AssertionError
  | KeyError
  | ZeroDivisionError
  | OverflowError
  | OtherError string

datatype validation_mode = Distributed | Master

text \<open>The namespace returned by \<^verbatim>\<open>parser.parse_args()\<close>.\<close>

record args =
  args_data :: "string option"
  args_logdir :: string
  args_load :: "string option"
  args_fake :: bool
  args_depth :: int
  args_eval :: bool
  args_validation :: "validation_mode option"
  args_batch :: int

text \<open>What \<^verbatim>\<open>hvd.size()\<close> and \<^verbatim>\<open>hvd.rank()\<close> return in this process.\<close>

record hvd =
  hvd_size :: nat
  hvd_rank :: nat

text \<open>
  Python converts an integer to a double by rounding to nearest, ties to even, and raises
  \<^verbatim>\<open>OverflowError\<close> when the result would be \<open>2 ^ 1024\<close> or more in magnitude.
\<close>

definition float_overflows :: "int \<Rightarrow> bool" where
  "float_overflows n = (2 ^ 1024 - 2 ^ 970 \<le> \<bar>n\<bar>)"

subsection \<open>class Model\<close>

record Model =
  data_format :: string
  loss_scale :: rat
  num_blocks :: "int list"

definition num_blocks_table :: "int \<rightharpoonup> int list" where
  "num_blocks_table =
     [50 \<mapsto> [3, 4, 6, 3],
      101 \<mapsto> [3, 4, 23, 3],
      152 \<mapsto> [3, 8, 36, 3]]"

text \<open>\<^verbatim>\<open>Model.__init__(self, depth, loss_scale=1.0)\<close>; a missing key raises \<^verbatim>\<open>KeyError\<close>.\<close>

definition Model_init :: "int \<Rightarrow> rat \<Rightarrow> error + Model" where
  "Model_init depth ls =
     (case num_blocks_table depth of
        None \<Rightarrow> Inl KeyError
      | Some nb \<Rightarrow> Inr \<lparr>data_format = ''NCHW'', loss_scale = ls, num_blocks = nb\<rparr>)"


subsection \<open>class HorovodClassificationError\<close>

text \<open>
  The error counter of one worker (\<^verbatim>\<open>self.err_stat\<close>): \<^verbatim>\<open>total\<close> examples seen and the
  \<^verbatim>\<open>count\<close> of wrong ones.
\<close>

record err_stat =
  stat_total :: nat
  stat_count :: nat

text \<open>
  The placeholder on line 55 is a \<^verbatim>\<open>tf.float32\<close> tensor of shape \<^verbatim>\<open>[2]\<close>. The \<^verbatim>\<open>float32\<close>
  values that occur are non-negative integers or infinity: \<open>Some n\<close> or \<open>None\<close>.
  \<open>float32 n\<close> rounds the integer \<open>n\<close> to 24 significant bits, to nearest and ties to even;
  \<open>f32_ulp n 1\<close> is the spacing of the \<^verbatim>\<open>float32\<close> values around \<open>n\<close>.
\<close>

function f32_ulp :: "nat \<Rightarrow> nat \<Rightarrow> nat" where
  "f32_ulp n u = (if u = 0 \<or> n div u < 2 ^ 24 then u else f32_ulp n (2 * u))"
  by pat_completeness auto
termination
proof (relation "measure (\<lambda>(n, u). n div u)")
  show "wf (measure (\<lambda>(n, u). n div u))" by simp
next
  fix n u :: nat
  assume a: "\<not> (u = 0 \<or> n div u < 2 ^ 24)"
  then have pos: "0 < n div u" by simp
  have "n div (2 * u) = (n div u) div 2"
    by (simp add: div_mult2_eq mult.commute)
  with pos show "((n, 2 * u), (n, u)) \<in> measure (\<lambda>(n, u). n div u)"
    by simp
qed

definition float32 :: "nat \<Rightarrow> nat option" where
  "float32 n =
     (let u = f32_ulp n 1; q = n div u; r = n mod u;
          m = (if 2 * r < u then q
               else if u < 2 * r then q + 1
               else if even q then q else q + 1)
      in if m * u < 2 ^ 128 then Some (m * u) else None)"

text \<open>Addition of two \<^verbatim>\<open>float32\<close> values.\<close>

definition f32_add :: "nat option \<Rightarrow> nat option \<Rightarrow> nat option" where
  "f32_add x y =
     (case x of
        None \<Rightarrow> None
      | Some a \<Rightarrow> (case y of None \<Rightarrow> None | Some b \<Rightarrow> float32 (a + b)))"

text \<open>Line 62, \<^verbatim>\<open>feed_dict={self._placeholder: [tot, cnt]}\<close>: the tensor one worker feeds.\<close>

definition to_be_reduced :: "err_stat \<Rightarrow> nat option \<times> nat option" where
  "to_be_reduced s = (float32 (stat_total s), float32 (stat_count s))"

text \<open>
  Line 56, \<^verbatim>\<open>hvd.allreduce(self._placeholder, average=False)\<close>, given the tensors of all
  workers: the elementwise \<^verbatim>\<open>float32\<close> sum, not divided by the number of workers. The
  order of the additions is Horovod's; here it is the order of the workers.
\<close>

definition allreduce_sum :: "(nat option \<times> nat option) list \<Rightarrow> nat option \<times> nat option" where
  "allreduce_sum tensors =
     (foldl f32_add (Some 0) (map fst tensors), foldl f32_add (Some 0) (map snd tensors))"

text \<open>
  \<^verbatim>\<open>_after_inference\<close>, as run on any worker when the workers hold the counters \<open>stats\<close>:
  every worker feeds \<^verbatim>\<open>[tot, cnt]\<close>, reads the reduced pair back and computes
  \<^verbatim>\<open>cnt * 1. / tot\<close>. Multiplying by \<^verbatim>\<open>1.\<close> leaves the value as it is; the one floating-point
  division is the parameter \<open>fdiv\<close>.
\<close>

definition after_inference :: "(nat option \<Rightarrow> nat option \<Rightarrow> 'r) \<Rightarrow> err_stat list \<Rightarrow> 'r" where
  "after_inference fdiv stats =
     (let (tot, cnt) = allreduce_sum (map to_be_reduced stats)
      in fdiv cnt tot)"

text \<open>
  The quotient that a floating-point division of two finite values approximates, taken
  exactly; \<open>None\<close> where the result is not a finite number. It instantiates \<open>fdiv\<close> to read
  results off at concrete inputs.
\<close>

definition exact_div :: "nat option \<Rightarrow> nat option \<Rightarrow> rat option" where
  "exact_div c t =
     (case c of
        None \<Rightarrow> None
      | Some c' \<Rightarrow>
          (case t of
             None \<Rightarrow> None
           | Some t' \<Rightarrow> if t' = 0 then None else Some (of_nat c' / of_nat t')))"

subsection \<open>Framework objects built by the script\<close>

datatype dataflow =
    FakeData "int list list" int bool "string list"
  | ValDataflow "string option" int bool "(nat \<times> nat) option"
    \<comment> \<open>\<^verbatim>\<open>get_val_dataflow(dir, batch, fbresnet_augmentor(isTrain), num_splits, split_index)\<close>\<close>

datatype input_source =
    QueueInput dataflow
  | ZMQInput string int int bool
    \<comment> \<open>endpoint template, the batch formatted into it, \<^verbatim>\<open>hwm\<close>, \<^verbatim>\<open>bind\<close>\<close>
  | StagingInput input_source "nat option"
    \<comment> \<open>\<^verbatim>\<open>nr_stage\<close>, when given\<close>

datatype inferencer =
    ClassificationError string string
  | HorovodClassificationError string string

datatype callback =
    ModelSaver nat
  | EstimatedTimeLeft
  | ScheduledHyperParamSetter string "(int \<times> rat) list" "string option" bool
    \<comment> \<open>parameter, schedule, \<^verbatim>\<open>interp\<close>, \<^verbatim>\<open>step_based\<close>\<close>
  | InferenceRunner input_source "inferencer list" bool
    \<comment> \<open>input, inferencers, \<^verbatim>\<open>chief_only\<close>\<close>

record TrainConfig =
  cfg_model :: Model
  cfg_data :: input_source
  cfg_callbacks :: "callback list"
  cfg_steps_per_epoch :: int
  cfg_max_epoch :: int

subsection \<open>get_config\<close>

text \<open>\<^verbatim>\<open>np.round\<close> rounds to the nearest integer, a tie to the even neighbour.\<close>

definition np_round :: "rat \<Rightarrow> int" where
  "np_round x =
     (let f = \<lfloor>x\<rfloor>; r = x - of_int f
      in if r < 1/2 then f
         else if 1/2 < r then f + 1
         else if even f then f else f + 1)"

text \<open>Line 88: \<^verbatim>\<open>BASE_LR = 0.1 * (total_batch // 256)\<close>.\<close>

definition BASE_LR :: "int \<Rightarrow> rat" where
  "BASE_LR total_batch = 0.1 * of_int (total_batch div 256)"

text \<open>Lines 95 to 111: the callbacks that do not depend on \<^verbatim>\<open>args.validation\<close>.\<close>

definition lr_callbacks :: "rat \<Rightarrow> int \<Rightarrow> callback list" where
  "lr_callbacks base_lr steps_per_epoch =
     (let callbacks =
            [ModelSaver 100,
             EstimatedTimeLeft,
             ScheduledHyperParamSetter ''learning_rate''
               [(30, base_lr * 0.1), (60, base_lr * 0.01), (80, base_lr * 0.001)]
               None False]
      in if base_lr > 0.1
         then callbacks @
              [ScheduledHyperParamSetter ''learning_rate''
                 [(0, 0.1), (5 * steps_per_epoch, base_lr)] (Some ''linear'') True]
         else callbacks)"

text \<open>
  The calls into the frameworks that may end a run, with the construction of the \<open>Model\<close>.
  What an external call does is a parameter \<open>ext\<close> of the functions below:
  \<open>ext call = Some e\<close> when the call raises \<open>e\<close>.
\<close>

datatype event =
    GetValDataflow dataflow
  | ModelInit Model
  | GetModelLoader "string option"
  | EvalOnILSVRC12 Model "string option" dataflow
  | HvdInit
  | SetLoggerDir string string
  | LaunchTrain TrainConfig bool
    \<comment> \<open>the configuration and the \<^verbatim>\<open>average\<close> flag of \<^verbatim>\<open>HorovodTrainer\<close>\<close>

text \<open>
  Lines 115 to 130. \<^verbatim>\<open>get_val_dataflow\<close> reads the dataset directory and may raise.
\<close>

definition validation_callbacks ::
  "(event \<Rightarrow> error option) \<Rightarrow> hvd \<Rightarrow> args \<Rightarrow> error + callback list" where
  "validation_callbacks ext h a =
     (case args_validation a of
        None \<Rightarrow> Inr []
      | Some v \<Rightarrow>
          if v = Master \<and> hvd_rank h = 0 then
            let dataset_val = ValDataflow (args_data a) 64 False None
            in case ext (GetValDataflow dataset_val) of
                 Some e \<Rightarrow> Inl e
               | None \<Rightarrow>
                   Inr [InferenceRunner
                          (QueueInput dataset_val)
                          [ClassificationError ''wrong-top1'' ''val-error-top1'',
                           ClassificationError ''wrong-top5'' ''val-error-top5'']
                          True]
          else if v = Distributed then
            let dataset_val =
                  ValDataflow (args_data a) 64 False (Some (hvd_size h, hvd_rank h))
            in case ext (GetValDataflow dataset_val) of
                 Some e \<Rightarrow> Inl e
               | None \<Rightarrow>
                   Inr [InferenceRunner
                          (QueueInput dataset_val)
                          [HorovodClassificationError ''wrong-top1'' ''val-error-top1'',
                           HorovodClassificationError ''wrong-top5'' ''val-error-top5'']
                          False]
          else Inr [])"

text \<open>
  Lines 71 to 83, the local \<^verbatim>\<open>steps_per_epoch\<close>: 50 on fake data, else
  \<^verbatim>\<open>int(np.round(1281167 / total_batch))\<close>, where the division raises \<^verbatim>\<open>ZeroDivisionError\<close>
  when the total batch is zero.
\<close>

definition steps_per_epoch :: "bool \<Rightarrow> int \<Rightarrow> error + int" where
  "steps_per_epoch fake total_batch =
     (if fake then Inr 50
      else if total_batch = 0 then Inl ZeroDivisionError
      else Inr (np_round (1281167 / of_int total_batch)))"

text \<open>
  \<^verbatim>\<open>get_config(model, fake)\<close>, reading \<^verbatim>\<open>args\<close> and the Horovod context. The product on
  line 88 converts \<^verbatim>\<open>total_batch // 256\<close> to a float and raises \<^verbatim>\<open>OverflowError\<close> when it
  does not fit.
\<close>

definition get_config ::
  "(event \<Rightarrow> error option) \<Rightarrow> hvd \<Rightarrow> args \<Rightarrow> Model \<Rightarrow> bool \<Rightarrow> error + TrainConfig" where
  "get_config ext h a model fake =
     (let batch = args_batch a;
          total_batch = batch * int (hvd_size h);
          data =
            (if fake
             then StagingInput
                    (QueueInput
                       (FakeData [[args_batch a, 224, 224, 3], [args_batch a]] 1000 False
                          [''uint8'', ''int32'']))
                    None
             else StagingInput (ZMQInput ''ipc://@imagenet-train-b{}'' batch 30 False)
                    (Some 1))
      in case steps_per_epoch fake total_batch of
           Inl e \<Rightarrow> Inl e
         | Inr steps \<Rightarrow>
             if float_overflows (total_batch div 256) then Inl OverflowError
             else
               let callbacks = lr_callbacks (BASE_LR total_batch) steps
               in case validation_callbacks ext h a of
                    Inl e \<Rightarrow> Inl e
                  | Inr validation \<Rightarrow>
                      let callbacks = callbacks @ validation
                      in Inr \<lparr>cfg_model = model,
                              cfg_data = data,
                              cfg_callbacks = callbacks,
                              cfg_steps_per_epoch = steps,
                              cfg_max_epoch = (if args_fake a then 35 else 90)\<rparr>)"

subsection \<open>The main program\<close>

text \<open>
  The run of the script after argument parsing: the ordered calls it makes into the
  frameworks, with the construction of the \<open>Model\<close>, and the exception that ends it, if any.
  Logging calls are left out.
\<close>

definition main :: "(event \<Rightarrow> error option) \<Rightarrow> hvd \<Rightarrow> args \<Rightarrow> event list \<times> error option" where
  "main ext h a =
     (if args_eval a then
        let batch = 128;
            ds = ValDataflow (args_data a) batch False None
        in case ext (GetValDataflow ds) of
             Some e \<Rightarrow> ([GetValDataflow ds], Some e)
           | None \<Rightarrow>
               (case Model_init (args_depth a) 1 of
                  Inl e \<Rightarrow> ([GetValDataflow ds], Some e)
                | Inr model \<Rightarrow>
                    (case ext (GetModelLoader (args_load a)) of
                       Some e \<Rightarrow>
                         ([GetValDataflow ds, ModelInit model, GetModelLoader (args_load a)],
                          Some e)
                     | None \<Rightarrow>
                         ([GetValDataflow ds, ModelInit model, GetModelLoader (args_load a),
                           EvalOnILSVRC12 model (args_load a) ds],
                          ext (EvalOnILSVRC12 model (args_load a) ds))))
      else if args_load a \<noteq> None then ([], Some AssertionError)
      else
        case ext HvdInit of
          Some e \<Rightarrow> ([HvdInit], Some e)
        | None \<Rightarrow>
            let started =
                  HvdInit #
                  (if hvd_rank h = 0 then [SetLoggerDir (args_logdir a) ''d''] else [])
            in case (if hvd_rank h = 0 then ext (SetLoggerDir (args_logdir a) ''d'') else None) of
                 Some e \<Rightarrow> (started, Some e)
               | None \<Rightarrow>
                   if hvd_size h = 0 then (started, Some ZeroDivisionError)
                   else if float_overflows (int (hvd_size h)) then (started, Some OverflowError)
                   else
                     (case Model_init (args_depth a) (1 / of_nat (hvd_size h)) of
                        Inl e \<Rightarrow> (started, Some e)
                      | Inr model \<Rightarrow>
                          (case get_config ext h a model (args_fake a) of
                             Inl e \<Rightarrow> (started @ [ModelInit model], Some e)
                           | Inr config \<Rightarrow>
                               (started @ [ModelInit model, LaunchTrain config False],
                                ext (LaunchTrain config False)))))"

section \<open>Properties\<close>

subsection \<open>Auxiliary facts\<close>

text \<open>
  Rounding: \<open>np_round\<close> stays within one half of its argument, so no integer is nearer;
  on a quotient of integers it is computed from \<open>div\<close> and \<open>mod\<close>.
\<close>

lemma np_round_within_half: "\<bar>of_int (np_round x) - x\<bar> \<le> 1/2"
  unfolding np_round_def Let_def by (auto simp: abs_if) linarith+

lemma np_round_nearest: "\<bar>of_int (np_round x) - x\<bar> \<le> \<bar>of_int m - x\<bar>"
proof (cases "m = np_round x")
  case True
  then show ?thesis by simp
next
  case False
  then have "1 \<le> \<bar>m - np_round x\<bar>" by linarith
  then have "(1::rat) \<le> of_int \<bar>m - np_round x\<bar>" by linarith
  then have far: "(1::rat) \<le> \<bar>of_int m - of_int (np_round x)\<bar>" by simp
  have near: "\<bar>of_int (np_round x) - x\<bar> \<le> 1/2" by (rule np_round_within_half)
  from far near show ?thesis by linarith
qed

lemma np_round_quotient:
  assumes "0 < b"
  shows "np_round (of_int a / of_int b) =
           (if 2 * (a mod b) < b then a div b
            else if b < 2 * (a mod b) then a div b + 1
            else if even (a div b) then a div b else a div b + 1)"
proof -
  have fl: "\<lfloor>(of_int a / of_int b :: rat)\<rfloor> = a div b"
    by (rule floor_divide_of_int_eq)
  have "(of_int a :: rat) = of_int (a div b) * of_int b + of_int (a mod b)"
    by (simp only: of_int_mult [symmetric] of_int_add [symmetric]) simp
  with assms have fr: "(of_int a / of_int b :: rat) - of_int (a div b) = of_int (a mod b) / of_int b"
    by (simp add: field_simps)
  have lt: "(of_int (a mod b) / of_int b :: rat) < 1/2 \<longleftrightarrow> 2 * (a mod b) < b"
  proof -
    have "(of_int (a mod b) / of_int b :: rat) < 1/2 \<longleftrightarrow> (of_int (2 * (a mod b)) :: rat) < of_int b"
      using assms by (simp add: field_simps)
    also have "\<dots> \<longleftrightarrow> 2 * (a mod b) < b" by (simp only: of_int_less_iff)
    finally show ?thesis .
  qed
  have gt: "(1/2 :: rat) < of_int (a mod b) / of_int b \<longleftrightarrow> b < 2 * (a mod b)"
  proof -
    have "(1/2 :: rat) < of_int (a mod b) / of_int b \<longleftrightarrow> (of_int b :: rat) < of_int (2 * (a mod b))"
      using assms by (simp add: field_simps)
    also have "\<dots> \<longleftrightarrow> b < 2 * (a mod b)" by (simp only: of_int_less_iff)
    finally show ?thesis .
  qed
  show ?thesis
    unfolding np_round_def Let_def fl fr lt gt by simp
qed

lemma np_round_numeral:
  "np_round (numeral a / numeral b) =
     (if 2 * (numeral a mod numeral b) < (numeral b :: int) then numeral a div numeral b
      else if (numeral b :: int) < 2 * (numeral a mod numeral b) then numeral a div numeral b + 1
      else if even (numeral a div numeral b :: int) then numeral a div numeral b
      else numeral a div numeral b + 1)"
  using np_round_quotient [of "numeral b" "numeral a"] by simp

text \<open>Integers below \<open>2 ^ 64\<close> in magnitude convert to a double without overflow.\<close>

lemma float_overflows_small: "\<bar>n\<bar> < 2 ^ 64 \<Longrightarrow> \<not> float_overflows n"
proof -
  assume a: "\<bar>n\<bar> < 2 ^ 64"
  have "(2::int) ^ 1024 - 2 ^ 970 = 2 ^ 970 * (2 ^ 54 - 1)"
    by (simp add: algebra_simps power_add [symmetric])
  moreover have "(2::int) ^ 64 * 1 \<le> 2 ^ 970 * (2 ^ 54 - 1)"
    by (rule mult_mono) (simp_all add: power_increasing)
  ultimately have "(2::int) ^ 64 \<le> 2 ^ 1024 - 2 ^ 970" by simp
  with a show ?thesis unfolding float_overflows_def by linarith
qed

text \<open>
  The reference learning rate exceeds \<open>0.1\<close> exactly from a total batch of 512 on, since
  line 88 divides with \<^verbatim>\<open>//\<close>.
\<close>

lemma BASE_LR_gt_iff: "BASE_LR tb > 0.1 \<longleftrightarrow> 512 \<le> tb"
proof -
  have "BASE_LR tb > 0.1 \<longleftrightarrow> (1::rat) < of_int (tb div 256)"
    by (simp add: BASE_LR_def)
  also have "\<dots> \<longleftrightarrow> 1 < tb div 256" by (simp only: of_int_1_less_iff)
  also have "\<dots> \<longleftrightarrow> 512 \<le> tb" by presburger
  finally show ?thesis .
qed

lemma BASE_LR_256: "BASE_LR 256 = 0.1"
  by (simp add: BASE_LR_def)

text \<open>The callbacks of a configuration: which schedule setters the list holds.\<close>

lemma validation_callbacks_no_schedule:
  "validation_callbacks ext h a = Inr v \<Longrightarrow> ScheduledHyperParamSetter p s i sb \<notin> set v"
  by (auto simp add: validation_callbacks_def Let_def split: option.splits if_splits)

lemma lr_callbacks_step_based:
  "ScheduledHyperParamSetter p s i True \<in> set (lr_callbacks base_lr spe) \<longleftrightarrow>
     base_lr > 0.1 \<and> p = ''learning_rate'' \<and> s = [(0, 0.1), (5 * spe, base_lr)] \<and> i = Some ''linear''"
  by (auto simp add: lr_callbacks_def Let_def split: if_splits)

lemma lr_callbacks_epoch_based:
  "ScheduledHyperParamSetter p s i False \<in> set (lr_callbacks base_lr spe) \<longleftrightarrow>
     p = ''learning_rate'' \<and> s = [(30, base_lr * 0.1), (60, base_lr * 0.01), (80, base_lr * 0.001)] \<and> i = None"
  by (auto simp add: lr_callbacks_def Let_def split: if_splits)

lemma get_config_Inr:
  assumes "get_config ext h a model fake = Inr c"
  shows "steps_per_epoch fake (args_batch a * int (hvd_size h)) = Inr (cfg_steps_per_epoch c)"
    and "\<exists>v. validation_callbacks ext h a = Inr v
           \<and> cfg_callbacks c =
               lr_callbacks (BASE_LR (args_batch a * int (hvd_size h))) (cfg_steps_per_epoch c) @ v"
    and "cfg_model c = model"
  using assms by (auto simp add: get_config_def Let_def split: sum.splits if_splits)

lemma get_config_schedules:
  assumes "get_config ext h a model fake = Inr c"
  shows "ScheduledHyperParamSetter p s i sb \<in> set (cfg_callbacks c) \<longleftrightarrow>
           ScheduledHyperParamSetter p s i sb
             \<in> set (lr_callbacks (BASE_LR (args_batch a * int (hvd_size h))) (cfg_steps_per_epoch c))"
  using get_config_Inr(2) [OF assms] validation_callbacks_no_schedule by fastforce

lemma get_config_returns:
  assumes "steps_per_epoch fake (args_batch a * int (hvd_size h)) = Inr s"
    and "\<not> float_overflows (args_batch a * int (hvd_size h) div 256)"
    and "validation_callbacks ext h a = Inr v"
  shows "\<exists>c. get_config ext h a model fake = Inr c \<and> cfg_steps_per_epoch c = s
             \<and> cfg_model c = model"
  using assms by (simp add: get_config_def Let_def)

lemma steps_per_epoch_returns:
  "fake \<or> tb \<noteq> 0 \<Longrightarrow> \<exists>s. steps_per_epoch fake tb = Inr s"
  by (auto simp add: steps_per_epoch_def)

text \<open>
  When the total batch is a multiple of 256 and at least 512, floor division is exact: the
  reference rate is \<open>0.1 \<times> total_batch / 256\<close> and the warmup schedule runs from \<open>0.1\<close> at
  step 0 to that rate at step \<open>5 \<times> steps_per_epoch\<close>.
\<close>

lemma large_batch_warmup:
  assumes "get_config ext h a model fake = Inr c"
    and "512 \<le> args_batch a * int (hvd_size h)"
    and "256 dvd args_batch a * int (hvd_size h)"
  shows "BASE_LR (args_batch a * int (hvd_size h))
           = 0.1 * of_int (args_batch a * int (hvd_size h)) / 256
         \<and> ScheduledHyperParamSetter ''learning_rate''
               [(0, 0.1), (5 * cfg_steps_per_epoch c, BASE_LR (args_batch a * int (hvd_size h)))]
               (Some ''linear'') True \<in> set (cfg_callbacks c)"
proof -
  from assms(3) obtain k where k: "args_batch a * int (hvd_size h) = 256 * k" ..
  have "BASE_LR (256 * k) = 0.1 * of_int (256 * k) / 256"
    by (simp add: BASE_LR_def)
  moreover from assms(2) have "BASE_LR (args_batch a * int (hvd_size h)) > 0.1"
    using BASE_LR_gt_iff [of "args_batch a * int (hvd_size h)"] by simp
  ultimately show ?thesis
    by (simp add: k [symmetric] get_config_schedules [OF assms(1)] lr_callbacks_step_based)
qed

text \<open>
  The \<^verbatim>\<open>float32\<close> tensor holds every integer up to \<open>2 ^ 24\<close> exactly, so a sum of counters
  that stays within this bound is reduced without rounding, in any order.
\<close>

lemma float32_exact: "n \<le> 2 ^ 24 \<Longrightarrow> float32 n = Some n"
proof (cases "n < 2 ^ 24")
  case True
  then have "f32_ulp n 1 = 1" by (subst f32_ulp.simps) simp
  with True show ?thesis by (simp add: float32_def)
next
  case False
  assume "n \<le> 2 ^ 24"
  with False have n: "n = 16777216" by simp
  have "f32_ulp 16777216 1 = f32_ulp 16777216 2" by (subst f32_ulp.simps) simp
  also have "\<dots> = 2" by (subst f32_ulp.simps) simp
  finally show ?thesis by (simp add: float32_def n)
qed

lemma float32_16777217: "float32 16777217 = Some 16777216"
proof -
  have "f32_ulp 16777217 1 = f32_ulp 16777217 2" by (subst f32_ulp.simps) simp
  also have "\<dots> = 2" by (subst f32_ulp.simps) simp
  finally show ?thesis by (simp add: float32_def)
qed

lemma foldl_f32_add_exact:
  "acc + sum_list (map f xs) \<le> 2 ^ 24 \<Longrightarrow>
     foldl f32_add (Some acc) (map (\<lambda>s. float32 (f s)) xs) = Some (acc + sum_list (map f xs))"
proof (induction xs arbitrary: acc)
  case Nil
  then show ?case by simp
next
  case (Cons x xs)
  from Cons.prems have fx: "f x \<le> 2 ^ 24" and ax: "acc + f x \<le> 2 ^ 24"
    and rest: "(acc + f x) + sum_list (map f xs) \<le> 2 ^ 24" by simp_all
  have "f32_add (Some acc) (float32 (f x)) = Some (acc + f x)"
    by (simp add: f32_add_def float32_exact [OF fx] float32_exact [OF ax])
  with Cons.IH [OF rest] show ?case by (simp add: add.assoc)
qed

lemma allreduce_sum_exact:
  assumes "sum_list (map stat_total stats) \<le> 2 ^ 24"
    and "sum_list (map stat_count stats) \<le> 2 ^ 24"
  shows "allreduce_sum (map to_be_reduced stats) =
           (Some (sum_list (map stat_total stats)), Some (sum_list (map stat_count stats)))"
  using foldl_f32_add_exact [of 0 stat_total stats] foldl_f32_add_exact [of 0 stat_count stats] assms
  by (simp add: allreduce_sum_def to_be_reduced_def comp_def)


lemma Model_init_valid:
  "depth \<in> {50, 101, 152} \<Longrightarrow> \<exists>m. Model_init depth ls = Inr m"
  by (auto simp add: Model_init_def num_blocks_table_def)


subsection \<open>Learning-rate schedule\<close>

text \<open>
  C1 (counterexample): the reference learning rate is not \<open>0.1\<close> for every total batch of
  at most 256. With per-worker batch 32 on one worker the total batch is 32, and line 88
  computes \<open>0.1 \<times> (32 // 256) = 0\<close>.
\<close>

theorem base_lr_small_batch_counterexample:
  "(32::int) * int 1 \<le> 256 \<and> BASE_LR (32 * int 1) = 0 \<and> BASE_LR (32 * int 1) \<noteq> 0.1"
  by (simp add: BASE_LR_def)

text \<open>
  C1 (amended): for every per-worker batch size and worker count whose product is at most
  256, the configuration holds no step-based (warmup) schedule setter; and at a total batch
  of exactly 256 the reference learning rate is \<open>0.1\<close>.
\<close>

theorem small_batch_no_warmup:
  assumes "get_config ext h a model fake = Inr c"
    and "args_batch a * int (hvd_size h) \<le> 256"
  shows "(\<forall>p s i. ScheduledHyperParamSetter p s i True \<notin> set (cfg_callbacks c))
         \<and> (args_batch a * int (hvd_size h) = 256 \<longrightarrow>
              BASE_LR (args_batch a * int (hvd_size h)) = 0.1)"
proof -
  from assms(2) have "\<not> BASE_LR (args_batch a * int (hvd_size h)) > 0.1"
    using BASE_LR_gt_iff [of "args_batch a * int (hvd_size h)"] by simp
  then have "\<forall>p s i. ScheduledHyperParamSetter p s i True \<notin> set (cfg_callbacks c)"
    by (simp add: get_config_schedules [OF assms(1)] lr_callbacks_step_based)
  then show ?thesis by (simp add: BASE_LR_256)
qed

theorem small_batch_no_warmup_witness:
  "get_config (\<lambda>call. None) \<lparr>hvd_size = 8, hvd_rank = 0\<rparr>
     \<lparr>args_data = None, args_logdir = ''train_log/tmp'', args_load = None, args_fake = False,
      args_depth = 50, args_eval = False, args_validation = None, args_batch = 32\<rparr>
     \<lparr>data_format = ''NCHW'', loss_scale = 1/8, num_blocks = [3, 4, 6, 3]\<rparr> False
   = Inr \<lparr>cfg_model = \<lparr>data_format = ''NCHW'', loss_scale = 1/8, num_blocks = [3, 4, 6, 3]\<rparr>,
          cfg_data = StagingInput (ZMQInput ''ipc://@imagenet-train-b{}'' 32 30 False) (Some 1),
          cfg_callbacks =
            [ModelSaver 100, EstimatedTimeLeft,
             ScheduledHyperParamSetter ''learning_rate''
               [(30, 0.01), (60, 0.001), (80, 0.0001)] None False],
          cfg_steps_per_epoch = 5005, cfg_max_epoch = 90\<rparr>
   \<and> (32::int) * int 8 \<le> 256 \<and> BASE_LR (32 * int 8) = 0.1"
  using small_batch_no_warmup [of "\<lambda>call. None" "\<lparr>hvd_size = 8, hvd_rank = 0\<rparr>"
     "\<lparr>args_data = None, args_logdir = ''train_log/tmp'', args_load = None, args_fake = False,
      args_depth = 50, args_eval = False, args_validation = None, args_batch = 32\<rparr>"
     "\<lparr>data_format = ''NCHW'', loss_scale = 1/8, num_blocks = [3, 4, 6, 3]\<rparr>" False]
    float_overflows_small [of 1]
  by (simp add: get_config_def steps_per_epoch_def lr_callbacks_def validation_callbacks_def
                BASE_LR_def np_round_numeral Let_def)

text \<open>
  C2: the code at per-worker batch 48 on 8 workers, a total batch of 384 > 256. Line 88
  divides with \<^verbatim>\<open>//\<close>, so the reference rate is \<open>0.1 \<times> 1 = 0.1\<close> and not
  \<open>0.1 \<times> 384 / 256 = 0.15\<close>, the test on line 102 fails, and the configuration carries no
  warmup schedule.
\<close>

theorem floor_scaling_at_384:
  "get_config (\<lambda>call. None) \<lparr>hvd_size = 8, hvd_rank = 0\<rparr>
     \<lparr>args_data = None, args_logdir = ''train_log/tmp'', args_load = None, args_fake = False,
      args_depth = 50, args_eval = False, args_validation = None, args_batch = 48\<rparr>
     \<lparr>data_format = ''NCHW'', loss_scale = 1/8, num_blocks = [3, 4, 6, 3]\<rparr> False
   = Inr \<lparr>cfg_model = \<lparr>data_format = ''NCHW'', loss_scale = 1/8, num_blocks = [3, 4, 6, 3]\<rparr>,
          cfg_data = StagingInput (ZMQInput ''ipc://@imagenet-train-b{}'' 48 30 False) (Some 1),
          cfg_callbacks =
            [ModelSaver 100, EstimatedTimeLeft,
             ScheduledHyperParamSetter ''learning_rate''
               [(30, 0.01), (60, 0.001), (80, 0.0001)] None False],
          cfg_steps_per_epoch = 3336, cfg_max_epoch = 90\<rparr>
   \<and> (48::int) * int 8 > 256
   \<and> BASE_LR (48 * int 8) = 0.1
   \<and> BASE_LR (48 * int 8) \<noteq> 0.1 * of_int (48 * int 8) / 256"
  using float_overflows_small [of 1]
  by (simp add: get_config_def steps_per_epoch_def lr_callbacks_def validation_callbacks_def
                BASE_LR_def np_round_numeral Let_def)

text \<open>
  C3: for any base learning rate, the epoch-based schedule setter built on lines 98 to 100
  carries exactly the points (30, base_lr \<times> 0.1), (60, base_lr \<times> 0.01) and
  (80, base_lr \<times> 0.001), and it is the only epoch-based schedule setter. Whenever line 83
  does not divide by zero, line 88 does not overflow and the validation dataflow (if any) is
  built without an exception, \<open>get_config\<close> returns a configuration, and its callbacks hold
  this setter for the reference rate of line 88 and no other epoch-based one, so that epochs
  30, 60 and 80 are set to these three values.
\<close>

theorem decay_schedule_points:
  "ScheduledHyperParamSetter ''learning_rate''
     [(30, base_lr * 0.1), (60, base_lr * 0.01), (80, base_lr * 0.001)] None False
     \<in> set (lr_callbacks base_lr spe)
   \<and> (\<forall>p s i. ScheduledHyperParamSetter p s i False \<in> set (lr_callbacks base_lr spe) \<longrightarrow>
          s = [(30, base_lr * 0.1), (60, base_lr * 0.01), (80, base_lr * 0.001)])
   \<and> ((fake \<or> args_batch a * int (hvd_size h) \<noteq> 0)
        \<and> \<not> float_overflows (args_batch a * int (hvd_size h) div 256)
        \<and> validation_callbacks ext h a = Inr v \<longrightarrow>
       (\<exists>c. get_config ext h a model fake = Inr c
          \<and> ScheduledHyperParamSetter ''learning_rate''
               [(30, BASE_LR (args_batch a * int (hvd_size h)) * 0.1),
                (60, BASE_LR (args_batch a * int (hvd_size h)) * 0.01),
                (80, BASE_LR (args_batch a * int (hvd_size h)) * 0.001)] None False
               \<in> set (cfg_callbacks c)
          \<and> (\<forall>p s i. ScheduledHyperParamSetter p s i False \<in> set (cfg_callbacks c) \<longrightarrow>
                 s = [(30, BASE_LR (args_batch a * int (hvd_size h)) * 0.1),
                      (60, BASE_LR (args_batch a * int (hvd_size h)) * 0.01),
                      (80, BASE_LR (args_batch a * int (hvd_size h)) * 0.001)]
                 \<and> map_of s 30 = Some (BASE_LR (args_batch a * int (hvd_size h)) * 0.1)
                 \<and> map_of s 60 = Some (BASE_LR (args_batch a * int (hvd_size h)) * 0.01)
                 \<and> map_of s 80 = Some (BASE_LR (args_batch a * int (hvd_size h)) * 0.001))))"
proof (intro conjI impI)
  show "ScheduledHyperParamSetter ''learning_rate''
     [(30, base_lr * 0.1), (60, base_lr * 0.01), (80, base_lr * 0.001)] None False
     \<in> set (lr_callbacks base_lr spe)"
    by (simp add: lr_callbacks_epoch_based)
next
  show "\<forall>p s i. ScheduledHyperParamSetter p s i False \<in> set (lr_callbacks base_lr spe) \<longrightarrow>
          s = [(30, base_lr * 0.1), (60, base_lr * 0.01), (80, base_lr * 0.001)]"
    by (simp add: lr_callbacks_epoch_based)
next
  let ?tb = "args_batch a * int (hvd_size h)"
  assume pre: "(fake \<or> ?tb \<noteq> 0) \<and> \<not> float_overflows (?tb div 256)
                 \<and> validation_callbacks ext h a = Inr v"
  then obtain s where s: "steps_per_epoch fake ?tb = Inr s"
    using steps_per_epoch_returns [of fake ?tb] by blast
  with pre obtain c where c: "get_config ext h a model fake = Inr c"
    using get_config_returns [of fake a h s ext v model] by blast
  show "\<exists>c. get_config ext h a model fake = Inr c
          \<and> ScheduledHyperParamSetter ''learning_rate''
               [(30, BASE_LR ?tb * 0.1), (60, BASE_LR ?tb * 0.01), (80, BASE_LR ?tb * 0.001)]
               None False \<in> set (cfg_callbacks c)
          \<and> (\<forall>p s i. ScheduledHyperParamSetter p s i False \<in> set (cfg_callbacks c) \<longrightarrow>
                 s = [(30, BASE_LR ?tb * 0.1), (60, BASE_LR ?tb * 0.01), (80, BASE_LR ?tb * 0.001)]
                 \<and> map_of s 30 = Some (BASE_LR ?tb * 0.1)
                 \<and> map_of s 60 = Some (BASE_LR ?tb * 0.01)
                 \<and> map_of s 80 = Some (BASE_LR ?tb * 0.001))"
    using c
    by (intro exI [of _ c])
       (simp add: get_config_schedules [OF c] lr_callbacks_epoch_based)
qed

theorem decay_schedule_points_witness:
  "((64::int) * int 8 \<noteq> 0) \<and> \<not> float_overflows (64 * int 8 div 256)
   \<and> validation_callbacks (\<lambda>call. None) \<lparr>hvd_size = 8, hvd_rank = 0\<rparr>
       \<lparr>args_data = None, args_logdir = ''train_log/tmp'', args_load = None, args_fake = False,
        args_depth = 50, args_eval = False, args_validation = None, args_batch = 64\<rparr> = Inr []
   \<and> get_config (\<lambda>call. None) \<lparr>hvd_size = 8, hvd_rank = 0\<rparr>
       \<lparr>args_data = None, args_logdir = ''train_log/tmp'', args_load = None, args_fake = False,
        args_depth = 50, args_eval = False, args_validation = None, args_batch = 64\<rparr>
       \<lparr>data_format = ''NCHW'', loss_scale = 1/8, num_blocks = [3, 4, 6, 3]\<rparr> False
     = Inr \<lparr>cfg_model = \<lparr>data_format = ''NCHW'', loss_scale = 1/8, num_blocks = [3, 4, 6, 3]\<rparr>,
            cfg_data = StagingInput (ZMQInput ''ipc://@imagenet-train-b{}'' 64 30 False) (Some 1),
            cfg_callbacks =
              [ModelSaver 100, EstimatedTimeLeft,
               ScheduledHyperParamSetter ''learning_rate''
                 [(30, 0.02), (60, 0.002), (80, 0.0002)] None False,
               ScheduledHyperParamSetter ''learning_rate''
                 [(0, 0.1), (12510, 0.2)] (Some ''linear'') True],
            cfg_steps_per_epoch = 2502, cfg_max_epoch = 90\<rparr>
   \<and> map_of [(30::int, 0.02::rat), (60, 0.002), (80, 0.0002)] 60 = Some 0.002"
  using decay_schedule_points [of "0.2" 2502 False
     "\<lparr>args_data = None, args_logdir = ''train_log/tmp'', args_load = None, args_fake = False,
        args_depth = 50, args_eval = False, args_validation = None, args_batch = 64\<rparr>"
     "\<lparr>hvd_size = 8, hvd_rank = 0\<rparr>" "\<lambda>call. None" "[]"
     "\<lparr>data_format = ''NCHW'', loss_scale = 1/8, num_blocks = [3, 4, 6, 3]\<rparr>"]
    float_overflows_small [of 2]
  by (simp add: get_config_def steps_per_epoch_def lr_callbacks_def validation_callbacks_def
                BASE_LR_def np_round_numeral Let_def)

text \<open>
  C7: in non-fake mode, for every positive total batch, line 83 computes \<open>steps_per_epoch\<close>
  as 1281167 divided by the total batch and rounded to a nearest integer (no integer is
  closer to the quotient); every configuration \<open>get_config\<close> returns carries this value, and
  it returns one unless line 88 overflows or building the validation dataflow raises.
\<close>

theorem steps_per_epoch_nearest:
  assumes "0 < args_batch a * int (hvd_size h)"
  shows "\<exists>s. steps_per_epoch False (args_batch a * int (hvd_size h)) = Inr s
           \<and> (\<forall>m. \<bar>of_int s - (1281167 :: rat) / of_int (args_batch a * int (hvd_size h))\<bar>
                   \<le> \<bar>of_int m - 1281167 / of_int (args_batch a * int (hvd_size h))\<bar>)
           \<and> (\<forall>c. get_config ext h a model False = Inr c \<longrightarrow> cfg_steps_per_epoch c = s)
           \<and> (\<not> float_overflows (args_batch a * int (hvd_size h) div 256)
                \<and> validation_callbacks ext h a = Inr v \<longrightarrow>
                (\<exists>c. get_config ext h a model False = Inr c \<and> cfg_steps_per_epoch c = s))"
proof -
  let ?tb = "args_batch a * int (hvd_size h)"
  let ?s = "np_round (1281167 / of_int ?tb)"
  from assms have nz: "?tb \<noteq> 0" by (metis less_irrefl)
  then have s: "steps_per_epoch False ?tb = Inr ?s"
    by (simp add: steps_per_epoch_def)
  have near: "\<forall>m. \<bar>of_int ?s - (1281167 :: rat) / of_int ?tb\<bar> \<le> \<bar>of_int m - 1281167 / of_int ?tb\<bar>"
    using np_round_nearest by blast
  have every: "\<forall>c. get_config ext h a model False = Inr c \<longrightarrow> cfg_steps_per_epoch c = ?s"
    using get_config_Inr(1) s by fastforce
  have some: "\<not> float_overflows (?tb div 256) \<and> validation_callbacks ext h a = Inr v \<longrightarrow>
                (\<exists>c. get_config ext h a model False = Inr c \<and> cfg_steps_per_epoch c = ?s)"
    using get_config_returns [OF s] by blast
  from s near every some show ?thesis by blast
qed

theorem steps_per_epoch_nearest_witness:
  "0 < (64::int) * int 8
   \<and> steps_per_epoch False (64 * int 8) = Inr 2502
   \<and> (\<exists>c. get_config (\<lambda>call. None) \<lparr>hvd_size = 8, hvd_rank = 0\<rparr>
        \<lparr>args_data = None, args_logdir = ''train_log/tmp'', args_load = None, args_fake = False,
         args_depth = 50, args_eval = False, args_validation = None, args_batch = 64\<rparr>
        \<lparr>data_format = ''NCHW'', loss_scale = 1/8, num_blocks = [3, 4, 6, 3]\<rparr> False = Inr c
        \<and> cfg_steps_per_epoch c = 2502)"
  using steps_per_epoch_nearest [of
      "\<lparr>args_data = None, args_logdir = ''train_log/tmp'', args_load = None, args_fake = False,
         args_depth = 50, args_eval = False, args_validation = None, args_batch = 64\<rparr>"
      "\<lparr>hvd_size = 8, hvd_rank = 0\<rparr>" "\<lambda>call. None"
      "\<lparr>data_format = ''NCHW'', loss_scale = 1/8, num_blocks = [3, 4, 6, 3]\<rparr>" "[]"]
    float_overflows_small [of 2]
  by (auto simp add: steps_per_epoch_def validation_callbacks_def np_round_numeral)

subsection \<open>Cross-worker error aggregation\<close>

text \<open>
  C4 (counterexample): the aggregated rate is not the quotient of the sums for every list of
  counters. One worker with 3 wrong out of 16777217: the total does not fit the \<^verbatim>\<open>float32\<close>
  tensor and is fed as 16777216, so the rate is 3/16777216.
\<close>

theorem aggregate_float32_counterexample:
  "0 < sum_list (map stat_total [\<lparr>stat_total = 16777217, stat_count = 3\<rparr>])
   \<and> after_inference exact_div [\<lparr>stat_total = 16777217, stat_count = 3\<rparr>] = Some (3 / 16777216)
   \<and> after_inference exact_div [\<lparr>stat_total = 16777217, stat_count = 3\<rparr>]
       \<noteq> Some (of_nat (sum_list (map stat_count [\<lparr>stat_total = 16777217, stat_count = 3\<rparr>]))
               / of_nat (sum_list (map stat_total [\<lparr>stat_total = 16777217, stat_count = 3\<rparr>])))"
  by (simp add: after_inference_def allreduce_sum_def to_be_reduced_def f32_add_def
                float32_16777217 float32_exact exact_div_def)

text \<open>
  C4 (amended): when the workers hold the pairs (wrong count, total count) and both sums are
  at most \<open>2 ^ 24\<close>, the reduction returns exactly the pair of the sums (it adds and does not
  average), and every worker computes the one division of the summed wrong count by the
  summed total. This differs in general from the mean of the per-worker ratios: the workers
  (1 of 1) and (0 of 3) give 1/4 against 1/2.
\<close>

theorem aggregate_sum_before_divide:
  "(\<forall>stats. sum_list (map stat_total stats) \<le> 2 ^ 24 \<and> sum_list (map stat_count stats) \<le> 2 ^ 24 \<longrightarrow>
      allreduce_sum (map to_be_reduced stats) =
        (Some (sum_list (map stat_total stats)), Some (sum_list (map stat_count stats)))
      \<and> after_inference fdiv stats =
          fdiv (Some (sum_list (map stat_count stats))) (Some (sum_list (map stat_total stats)))
      \<and> (0 < sum_list (map stat_total stats) \<longrightarrow>
           after_inference exact_div stats =
             Some (of_nat (sum_list (map stat_count stats))
                   / of_nat (sum_list (map stat_total stats)))))
   \<and> (\<exists>stats. 0 < sum_list (map stat_total stats)
          \<and> sum_list (map stat_total stats) \<le> 2 ^ 24 \<and> sum_list (map stat_count stats) \<le> 2 ^ 24
          \<and> after_inference exact_div stats \<noteq>
              Some (sum_list (map (\<lambda>s. of_nat (stat_count s) / of_nat (stat_total s)) stats)
                    / of_nat (length stats)))"
proof (intro conjI allI impI)
  fix stats :: "err_stat list"
  assume b: "sum_list (map stat_total stats) \<le> 2 ^ 24 \<and> sum_list (map stat_count stats) \<le> 2 ^ 24"
  then show red: "allreduce_sum (map to_be_reduced stats) =
        (Some (sum_list (map stat_total stats)), Some (sum_list (map stat_count stats)))"
    by (simp add: allreduce_sum_exact)
  show "after_inference fdiv stats =
          fdiv (Some (sum_list (map stat_count stats))) (Some (sum_list (map stat_total stats)))"
    by (simp add: after_inference_def red)
  assume "0 < sum_list (map stat_total stats)"
  then have "sum_list (map stat_total stats) \<noteq> 0" by (metis less_irrefl)
  then show "after_inference exact_div stats =
             Some (of_nat (sum_list (map stat_count stats))
                   / of_nat (sum_list (map stat_total stats)))"
    by (simp only: after_inference_def red exact_div_def Let_def split_conv option.case if_False)
next
  let ?ws = "[\<lparr>stat_total = 1, stat_count = 1\<rparr>, \<lparr>stat_total = 3, stat_count = 0\<rparr>]"
  have "0 < sum_list (map stat_total ?ws)
        \<and> sum_list (map stat_total ?ws) \<le> 2 ^ 24 \<and> sum_list (map stat_count ?ws) \<le> 2 ^ 24
        \<and> after_inference exact_div ?ws \<noteq>
            Some (sum_list (map (\<lambda>s. of_nat (stat_count s) / of_nat (stat_total s)) ?ws)
                  / of_nat (length ?ws))"
    by (simp add: after_inference_def allreduce_sum_def to_be_reduced_def f32_add_def
                  float32_exact exact_div_def)
  then show "\<exists>stats. 0 < sum_list (map stat_total stats)
          \<and> sum_list (map stat_total stats) \<le> 2 ^ 24 \<and> sum_list (map stat_count stats) \<le> 2 ^ 24
          \<and> after_inference exact_div stats \<noteq>
              Some (sum_list (map (\<lambda>s. of_nat (stat_count s) / of_nat (stat_total s)) stats)
                    / of_nat (length stats))"
    by (rule exI)
qed

theorem aggregate_sum_before_divide_witness:
  "sum_list (map stat_total
       [\<lparr>stat_total = 100, stat_count = 10\<rparr>, \<lparr>stat_total = 300, stat_count = 90\<rparr>]) \<le> 2 ^ 24
   \<and> sum_list (map stat_count
       [\<lparr>stat_total = 100, stat_count = 10\<rparr>, \<lparr>stat_total = 300, stat_count = 90\<rparr>]) \<le> 2 ^ 24
   \<and> allreduce_sum (map to_be_reduced
       [\<lparr>stat_total = 100, stat_count = 10\<rparr>, \<lparr>stat_total = 300, stat_count = 90\<rparr>])
       = (Some 400, Some 100)
   \<and> after_inference exact_div
       [\<lparr>stat_total = 100, stat_count = 10\<rparr>, \<lparr>stat_total = 300, stat_count = 90\<rparr>]
       = Some (1/4)"
  using aggregate_sum_before_divide [of exact_div, THEN conjunct1, THEN spec,
      of "[\<lparr>stat_total = 100, stat_count = 10\<rparr>, \<lparr>stat_total = 300, stat_count = 90\<rparr>]"]
  by (simp add: exact_div_def)

subsection \<open>Loss scaling\<close>



subsection \<open>Command-line modes\<close>

text \<open>
  C5 (counterexample): with \<^verbatim>\<open>--eval\<close> and no \<^verbatim>\<open>--load\<close> the run does not fail before
  model construction, since the script checks nothing itself. Even when the external loader
  rejects the missing path with an assertion, the validation dataflow has been built and
  the \<open>Model\<close> constructed before that call.
\<close>

theorem eval_without_load_counterexample:
  "main (\<lambda>call. if call = GetModelLoader None then Some AssertionError else None)
     \<lparr>hvd_size = 1, hvd_rank = 0\<rparr>
     \<lparr>args_data = Some ''/data/ILSVRC12'', args_logdir = ''train_log/tmp'', args_load = None,
      args_fake = False, args_depth = 50, args_eval = True, args_validation = None,
      args_batch = 32\<rparr>
   = ([GetValDataflow (ValDataflow (Some ''/data/ILSVRC12'') 128 False None),
       ModelInit \<lparr>data_format = ''NCHW'', loss_scale = 1, num_blocks = [3, 4, 6, 3]\<rparr>,
       GetModelLoader None],
      Some AssertionError)"
  by (simp add: main_def Model_init_def num_blocks_table_def Let_def)

text \<open>
  C5 (amended): with \<^verbatim>\<open>--eval\<close> and \<^verbatim>\<open>--load\<close> unset, the script makes no check of
  \<^verbatim>\<open>--load\<close> before model construction: once the validation dataflow is built, it constructs
  the \<open>Model\<close> and only then passes the unset path to the external \<^verbatim>\<open>get_model_loader\<close>, so a
  failure of that call comes after the model has been constructed.
\<close>

theorem eval_constructs_model_first:
  assumes "args_eval a" and "args_load a = None" and "args_depth a \<in> {50, 101, 152}"
    and "ext (GetValDataflow (ValDataflow (args_data a) 128 False None)) = None"
  shows "\<exists>m. Model_init (args_depth a) 1 = Inr m
           \<and> take 3 (fst (main ext h a)) =
               [GetValDataflow (ValDataflow (args_data a) 128 False None),
                ModelInit m, GetModelLoader None]
           \<and> (\<forall>e. ext (GetModelLoader None) = Some e \<longrightarrow>
                main ext h a =
                  ([GetValDataflow (ValDataflow (args_data a) 128 False None),
                    ModelInit m, GetModelLoader None], Some e))"
proof -
  from assms(3) obtain m where m: "Model_init (args_depth a) 1 = Inr m"
    using Model_init_valid by blast
  with assms(1,2,4) show ?thesis
    by (cases "ext (GetModelLoader None)") (simp_all add: main_def Let_def)
qed

theorem eval_constructs_model_first_witness:
  "args_eval \<lparr>args_data = None, args_logdir = ''train_log/tmp'', args_load = None,
      args_fake = False, args_depth = 101, args_eval = True, args_validation = None,
      args_batch = 32\<rparr>
   \<and> (101::int) \<in> {50, 101, 152}
   \<and> main (\<lambda>call. if call = GetModelLoader None then Some (OtherError ''AttributeError'') else None)
        \<lparr>hvd_size = 1, hvd_rank = 0\<rparr>
        \<lparr>args_data = None, args_logdir = ''train_log/tmp'', args_load = None,
         args_fake = False, args_depth = 101, args_eval = True, args_validation = None,
         args_batch = 32\<rparr>
      = ([GetValDataflow (ValDataflow None 128 False None),
          ModelInit \<lparr>data_format = ''NCHW'', loss_scale = 1, num_blocks = [3, 4, 23, 3]\<rparr>,
          GetModelLoader None],
         Some (OtherError ''AttributeError''))"
  using eval_constructs_model_first [of
      "\<lparr>args_data = None, args_logdir = ''train_log/tmp'', args_load = None,
         args_fake = False, args_depth = 101, args_eval = True, args_validation = None,
         args_batch = 32\<rparr>"
      "\<lambda>call. if call = GetModelLoader None then Some (OtherError ''AttributeError'') else None"
      "\<lparr>hvd_size = 1, hvd_rank = 0\<rparr>"]
  by (simp add: main_def Model_init_def num_blocks_table_def Let_def)

text \<open>
  C6: in training mode (no \<^verbatim>\<open>--eval\<close>) with \<^verbatim>\<open>--load\<close> set, the assertion on line 166
  fails before any call is made: Horovod is not initialised, no model is constructed and no
  configuration is built.
\<close>

theorem train_with_load_asserts:
  assumes "\<not> args_eval a" and "args_load a \<noteq> None"
  shows "main ext h a = ([], Some AssertionError)"
  using assms by (simp add: main_def)

theorem train_with_load_asserts_witness:
  "\<not> args_eval \<lparr>args_data = None, args_logdir = ''train_log/tmp'', args_load = Some ''ckpt'',
      args_fake = False, args_depth = 50, args_eval = False, args_validation = None,
      args_batch = 32\<rparr>
   \<and> main (\<lambda>call. None) \<lparr>hvd_size = 8, hvd_rank = 0\<rparr>
        \<lparr>args_data = None, args_logdir = ''train_log/tmp'', args_load = Some ''ckpt'',
         args_fake = False, args_depth = 50, args_eval = False, args_validation = None,
         args_batch = 32\<rparr>
      = ([], Some AssertionError)"
  using train_with_load_asserts [of
      "\<lparr>args_data = None, args_logdir = ''train_log/tmp'', args_load = Some ''ckpt'',
         args_fake = False, args_depth = 50, args_eval = False, args_validation = None,
         args_batch = 32\<rparr>" "\<lambda>call. None" "\<lparr>hvd_size = 8, hvd_rank = 0\<rparr>"]
  by simp

text \<open>
  C9: in evaluation mode the validation dataflow is built with batch size 128, and the run
  does not depend on \<^verbatim>\<open>--batch\<close> at all.
\<close>

theorem eval_batch_is_128:
  assumes "args_eval a"
  shows "main ext h (a\<lparr>args_batch := b\<rparr>) = main ext h a
         \<and> hd (fst (main ext h a)) = GetValDataflow (ValDataflow (args_data a) 128 False None)
         \<and> (\<forall>ds. GetValDataflow ds \<in> set (fst (main ext h a)) \<longrightarrow>
               ds = ValDataflow (args_data a) 128 False None)
         \<and> (\<forall>m p ds. EvalOnILSVRC12 m p ds \<in> set (fst (main ext h a)) \<longrightarrow>
               ds = ValDataflow (args_data a) 128 False None)"
  using assms
  by (auto simp add: main_def Let_def split: sum.splits option.splits)

theorem eval_batch_is_128_witness:
  "args_eval \<lparr>args_data = Some ''/data'', args_logdir = ''train_log/tmp'',
      args_load = Some ''ckpt'', args_fake = False, args_depth = 152, args_eval = True,
      args_validation = None, args_batch = 7\<rparr>
   \<and> main (\<lambda>call. None) \<lparr>hvd_size = 1, hvd_rank = 0\<rparr>
        \<lparr>args_data = Some ''/data'', args_logdir = ''train_log/tmp'',
         args_load = Some ''ckpt'', args_fake = False, args_depth = 152, args_eval = True,
         args_validation = None, args_batch = 7\<rparr>
      = ([GetValDataflow (ValDataflow (Some ''/data'') 128 False None),
          ModelInit \<lparr>data_format = ''NCHW'', loss_scale = 1, num_blocks = [3, 8, 36, 3]\<rparr>,
          GetModelLoader (Some ''ckpt''),
          EvalOnILSVRC12 \<lparr>data_format = ''NCHW'', loss_scale = 1, num_blocks = [3, 8, 36, 3]\<rparr>
            (Some ''ckpt'') (ValDataflow (Some ''/data'') 128 False None)],
         None)"
  using eval_batch_is_128 [of
      "\<lparr>args_data = Some ''/data'', args_logdir = ''train_log/tmp'',
         args_load = Some ''ckpt'', args_fake = False, args_depth = 152, args_eval = True,
         args_validation = None, args_batch = 7\<rparr>" "\<lambda>call. None"
      "\<lparr>hvd_size = 1, hvd_rank = 0\<rparr>" 256]
  by (simp add: main_def Model_init_def num_blocks_table_def Let_def)

subsection \<open>Block counts per depth\<close>

text \<open>
  C10: the constructor maps depth 50 to the block counts [3, 4, 6, 3], depth 101 to
  [3, 4, 23, 3] and depth 152 to [3, 8, 36, 3], and raises a lookup error (KeyError)
  for every other depth.
\<close>

theorem Model_init_num_blocks:
  "Model_init 50 ls = Inr \<lparr>data_format = ''NCHW'', loss_scale = ls, num_blocks = [3, 4, 6, 3]\<rparr>
   \<and> Model_init 101 ls = Inr \<lparr>data_format = ''NCHW'', loss_scale = ls, num_blocks = [3, 4, 23, 3]\<rparr>
   \<and> Model_init 152 ls = Inr \<lparr>data_format = ''NCHW'', loss_scale = ls, num_blocks = [3, 8, 36, 3]\<rparr>
   \<and> (\<forall>depth. depth \<notin> {50, 101, 152} \<longrightarrow> Model_init depth ls = Inl KeyError)"
  by (simp add: Model_init_def num_blocks_table_def)

theorem Model_init_num_blocks_witness:
  "Model_init 50 1 = Inr \<lparr>data_format = ''NCHW'', loss_scale = 1, num_blocks = [3, 4, 6, 3]\<rparr>
   \<and> (18::int) \<notin> {50, 101, 152} \<and> Model_init 18 1 = Inl KeyError"
  using Model_init_num_blocks [of 1] by simp

end
